theory Spec2Isabelle
  imports Complex_Main
begin

section \<open>JavaScript numbers\<close>

text \<open>
  A JavaScript number is an IEEE-754 double.  The model keeps the three non-finite
  values apart and takes the finite ones as mathematical reals, so rounding error,
  overflow to infinity and the sign of zero are idealised away; everything else
  (which operand decides, when NaN or an infinity comes out) follows the language.
\<close>

datatype jsnum = Fin real | PosInf | NegInf | NaN

fun isNaN :: "jsnum \<Rightarrow> bool" where
  "isNaN NaN = True"
| "isNaN _ = False"

fun isFinite :: "jsnum \<Rightarrow> bool" where
  "isFinite (Fin _) = True"
| "isFinite _ = False"

fun js_neg :: "jsnum \<Rightarrow> jsnum" where
  "js_neg (Fin a) = Fin (- a)"
| "js_neg PosInf = NegInf"
| "js_neg NegInf = PosInf"
| "js_neg NaN = NaN"

fun js_add :: "jsnum \<Rightarrow> jsnum \<Rightarrow> jsnum" where
  "js_add (Fin a) (Fin b) = Fin (a + b)"
| "js_add NaN _ = NaN"
| "js_add _ NaN = NaN"
| "js_add PosInf NegInf = NaN"
| "js_add NegInf PosInf = NaN"
| "js_add PosInf _ = PosInf"
| "js_add _ PosInf = PosInf"
| "js_add NegInf _ = NegInf"
| "js_add _ NegInf = NegInf"

definition js_sub :: "jsnum \<Rightarrow> jsnum \<Rightarrow> jsnum" where
  "js_sub a b = js_add a (js_neg b)"

text \<open>The sign of an infinite product or quotient: \<open>inf_signed pos\<close>.\<close>

definition inf_signed :: "bool \<Rightarrow> jsnum" where
  "inf_signed pos = (if pos then PosInf else NegInf)"

fun js_mul :: "jsnum \<Rightarrow> jsnum \<Rightarrow> jsnum" where
  "js_mul (Fin a) (Fin b) = Fin (a * b)"
| "js_mul NaN _ = NaN"
| "js_mul _ NaN = NaN"
| "js_mul PosInf (Fin b) = (if b = 0 then NaN else inf_signed (0 < b))"
| "js_mul NegInf (Fin b) = (if b = 0 then NaN else inf_signed (b < 0))"
| "js_mul (Fin a) PosInf = (if a = 0 then NaN else inf_signed (0 < a))"
| "js_mul (Fin a) NegInf = (if a = 0 then NaN else inf_signed (a < 0))"
| "js_mul PosInf PosInf = PosInf"
| "js_mul NegInf NegInf = PosInf"
| "js_mul PosInf NegInf = NegInf"
| "js_mul NegInf PosInf = NegInf"

fun js_div :: "jsnum \<Rightarrow> jsnum \<Rightarrow> jsnum" where
  "js_div (Fin a) (Fin b) =
     (if b = 0 then (if a = 0 then NaN else inf_signed (0 < a)) else Fin (a / b))"
| "js_div NaN _ = NaN"
| "js_div _ NaN = NaN"
| "js_div (Fin a) _ = Fin 0"
| "js_div PosInf (Fin b) = inf_signed (0 \<le> b)"
| "js_div NegInf (Fin b) = inf_signed (b < 0)"
| "js_div PosInf PosInf = NaN"
| "js_div PosInf NegInf = NaN"
| "js_div NegInf PosInf = NaN"
| "js_div NegInf NegInf = NaN"

text \<open>
  \<open>Math.hypot\<close>: an infinite argument wins over NaN, NaN wins over finite ones.
\<close>

fun hypot :: "jsnum \<Rightarrow> jsnum \<Rightarrow> jsnum" where
  "hypot (Fin a) (Fin b) = Fin (sqrt (a\<^sup>2 + b\<^sup>2))"
| "hypot PosInf _ = PosInf"
| "hypot NegInf _ = PosInf"
| "hypot _ PosInf = PosInf"
| "hypot _ NegInf = PosInf"
| "hypot NaN _ = NaN"
| "hypot _ NaN = NaN"

text \<open>
  \<open>toFixed3 v\<close> is the number that the string \<open>v.toFixed(3)\<close> denotes, that is
  \<open>parseFloat(v.toFixed(3))\<close>.  Below \<open>10^21\<close> the language rounds the magnitude
  to the nearest multiple of a thousandth, the larger one on a tie, and puts the
  sign back; from \<open>10^21\<close> on, and for the non-finite values, it prints the number
  itself.
\<close>

fun toFixed3 :: "jsnum \<Rightarrow> jsnum" where
  "toFixed3 (Fin v) =
     (if 10 ^ 21 \<le> \<bar>v\<bar> then Fin v
      else Fin (sgn v * real_of_int \<lfloor>\<bar>v\<bar> * 1000 + 1 / 2\<rfloor> / 1000))"
| "toFixed3 PosInf = PosInf"
| "toFixed3 NegInf = NegInf"
| "toFixed3 NaN = NaN"

section \<open>Geometry and units (js/utils/calculations.js)\<close>

text \<open>A point \<open>{x, y}\<close>; the fields are \<open>px\<close> and \<open>py\<close> here.\<close>

record point =
  px :: jsnum
  py :: jsnum

definition dist :: "point \<Rightarrow> point \<Rightarrow> jsnum" where
  "dist a b = hypot (js_sub (px b) (px a)) (js_sub (py b) (py a))"

text \<open>
  \<open>sqftToDecimal\<close> returns the string \<open>(sqft / 435.6).toFixed(3)\<close>; its only
  caller reads the string back with \<open>parseFloat\<close>, so the model carries the number
  the string denotes.
\<close>

definition sqftToDecimal :: "jsnum \<Rightarrow> jsnum" where
  "sqftToDecimal sqft = toFixed3 (js_div sqft (Fin 435.6))"

record aggregate =
  leftDistance :: jsnum
  rightDistance :: jsnum
  avgWidth :: jsnum
  length_r :: jsnum
  area :: jsnum
  areaDecimal :: jsnum

definition zero_aggregate :: aggregate where
  "zero_aggregate =
     \<lparr>leftDistance = Fin 0, rightDistance = Fin 0, avgWidth = Fin 0,
      length_r = Fin 0, area = Fin 0, areaDecimal = Fin 0\<rparr>"

text \<open>
  The aggregate that \<open>calculateMeasurements\<close> returns (\<open>length_r\<close> is its field
  \<open>length\<close>), and the midpoint object that the function builds inline for each side.
\<close>

definition midpoint :: "point \<Rightarrow> point \<Rightarrow> point" where
  "midpoint a b =
     \<lparr>px = js_div (js_add (px a) (px b)) (Fin 2),
      py = js_div (js_add (py a) (py b)) (Fin 2)\<rparr>"

definition calculateMeasurements :: "point list \<Rightarrow> point list \<Rightarrow> aggregate" where
  "calculateMeasurements leftPoints rightPoints =
     (let result = zero_aggregate;
          result = (if 2 \<le> length leftPoints
                    then result\<lparr>leftDistance := dist (leftPoints ! 0) (leftPoints ! 1)\<rparr>
                    else result);
          result = (if 2 \<le> length rightPoints
                    then result\<lparr>rightDistance := dist (rightPoints ! 0) (rightPoints ! 1)\<rparr>
                    else result)
      in if 2 \<le> length leftPoints \<and> 2 \<le> length rightPoints then
           (let leftWidth = leftDistance result;
                rightWidth = rightDistance result;
                result = result\<lparr>avgWidth := js_div (js_add leftWidth rightWidth) (Fin 2)\<rparr>;
                leftMidpoint = midpoint (leftPoints ! 0) (leftPoints ! 1);
                rightMidpoint = midpoint (rightPoints ! 0) (rightPoints ! 1);
                result = result\<lparr>length_r := dist leftMidpoint rightMidpoint\<rparr>;
                result = result\<lparr>area :=
                           js_mul (js_mul (avgWidth result) (length_r result)) (Fin 10.7639)\<rparr>
            in result\<lparr>areaDecimal := sqftToDecimal (area result)\<rparr>)
         else result)"

section \<open>Coordinate parsing (parseXY in js/utils/calculations.js)\<close>













section \<open>Undo/redo manager (class UndoRedoManager)\<close>

text \<open>
  A history entry is \<open>{state, action, timestamp}\<close>.  The snapshot type \<open>'s\<close> is
  opaque to the manager.  \<open>push\<close> stores \<open>JSON.parse(JSON.stringify(state))\<close>, a
  deep copy; HOL values are immutable, so the copy of a JSON-representable snapshot
  is the snapshot itself.  \<open>Date.now()\<close> is passed in as \<open>now\<close>.

  The listeners are left out: \<open>notifyListeners\<close> reads the manager, hands each
  listener a summary (\<open>canUndo\<close>, \<open>canRedo\<close>, the length and the cursor) inside a
  \<open>try/catch\<close>, and writes nothing; listeners are taken not to call back into the
  manager.
\<close>

record 's history_item =
  state :: 's
  action :: string
  timestamp :: int

record 's UndoRedoManager =
  history :: "'s history_item list"
  currentIndex :: int
  maxHistory :: int
  isEnabled :: bool

text \<open>The constructor, \<open>new UndoRedoManager(maxHistory)\<close>; the default bound is 50.\<close>

definition new_UndoRedoManager :: "int \<Rightarrow> 's UndoRedoManager" where
  "new_UndoRedoManager bound =
     \<lparr>history = [], currentIndex = - 1, maxHistory = bound, isEnabled = True\<rparr>"

text \<open>
  \<open>xs.slice(0, e)\<close>: a negative end counts from the back, and both ends are
  clamped to the array.
\<close>

definition slice0 :: "'a list \<Rightarrow> int \<Rightarrow> 'a list" where
  "slice0 xs e = (if e < 0 then take (nat (int (length xs) + e)) xs else take (nat e) xs)"

definition item_of :: "'s \<times> string \<times> int \<Rightarrow> 's history_item" where
  "item_of p = (case p of (s, a, t) \<Rightarrow> \<lparr>state = s, action = a, timestamp = t\<rparr>)"

definition push :: "'s \<Rightarrow> string \<Rightarrow> int \<Rightarrow> 's UndoRedoManager \<Rightarrow> 's UndoRedoManager" where
  "push st act now m =
     (if \<not> isEnabled m then m
      else
        let h1 = (if currentIndex m < int (length (history m)) - 1
                  then slice0 (history m) (currentIndex m + 1)
                  else history m);
            h2 = h1 @ [\<lparr>state = st, action = act, timestamp = now\<rparr>]
        in if maxHistory m < int (length h2)
           then m\<lparr>history := tl h2\<rparr>
           else m\<lparr>history := h2, currentIndex := currentIndex m + 1\<rparr>)"

definition canUndo :: "'s UndoRedoManager \<Rightarrow> bool" where
  "canUndo m = (0 < currentIndex m)"

definition canRedo :: "'s UndoRedoManager \<Rightarrow> bool" where
  "canRedo m = (currentIndex m < int (length (history m)) - 1)"

text \<open>
  What a call of \<open>undo\<close> or \<open>redo\<close> gives back: \<open>null\<close>, a fresh object with the
  three fields of the entry under the cursor, or the \<open>TypeError\<close> that reading
  \<open>historyItem.state\<close> raises when \<open>history[currentIndex]\<close> is \<open>undefined\<close>.
\<close>

datatype 'a returned = ReturnsNull | Returns 'a | ThrowsTypeError

definition undo :: "'s UndoRedoManager \<Rightarrow> 's history_item returned \<times> 's UndoRedoManager" where
  "undo m =
     (if \<not> canUndo m then (ReturnsNull, m)
      else
        let m' = m\<lparr>currentIndex := currentIndex m - 1\<rparr>
        in if 0 \<le> currentIndex m' \<and> currentIndex m' < int (length (history m'))
           then (Returns (history m' ! nat (currentIndex m')), m')
           else (ThrowsTypeError, m'))"

definition redo :: "'s UndoRedoManager \<Rightarrow> 's history_item returned \<times> 's UndoRedoManager" where
  "redo m =
     (if \<not> canRedo m then (ReturnsNull, m)
      else
        let m' = m\<lparr>currentIndex := currentIndex m + 1\<rparr>
        in if 0 \<le> currentIndex m' \<and> currentIndex m' < int (length (history m'))
           then (Returns (history m' ! nat (currentIndex m')), m')
           else (ThrowsTypeError, m'))"

definition clear :: "'s UndoRedoManager \<Rightarrow> 's UndoRedoManager" where
  "clear m = m\<lparr>history := [], currentIndex := - 1\<rparr>"

definition getCurrentState :: "'s UndoRedoManager \<Rightarrow> 's option" where
  "getCurrentState m =
     (if 0 \<le> currentIndex m \<and> currentIndex m < int (length (history m))
      then Some (state (history m ! nat (currentIndex m)))
      else None)"

text \<open>Call sequences: a list of pushes, and \<open>n\<close> calls of \<open>undo\<close> or of \<open>redo\<close> in a row.\<close>

fun push_all :: "('s \<times> string \<times> int) list \<Rightarrow> 's UndoRedoManager \<Rightarrow> 's UndoRedoManager" where
  "push_all [] m = m"
| "push_all (p # ps) m = push_all ps (push (fst p) (fst (snd p)) (snd (snd p)) m)"

fun undo_n :: "nat \<Rightarrow> 's UndoRedoManager \<Rightarrow> 's history_item returned list \<times> 's UndoRedoManager" where
  "undo_n 0 m = ([], m)"
| "undo_n (Suc n) m = (fst (undo m) # fst (undo_n n (snd (undo m))), snd (undo_n n (snd (undo m))))"

fun redo_n :: "nat \<Rightarrow> 's UndoRedoManager \<Rightarrow> 's history_item returned list \<times> 's UndoRedoManager" where
  "redo_n 0 m = ([], m)"
| "redo_n (Suc n) m = (fst (redo m) # fst (redo_n n (snd (redo m))), snd (redo_n n (snd (redo m))))"

text \<open>
  The cursor is in range when it is \<open>-1\<close> or the index of an entry; every state
  reached from a fresh manager by \<open>push\<close>, \<open>undo\<close>, \<open>redo\<close> and \<open>clear\<close> is so.
\<close>

definition cursor_in_range :: "'s UndoRedoManager \<Rightarrow> bool" where
  "cursor_in_range m = (- 1 \<le> currentIndex m \<and> currentIndex m < int (length (history m)))"

section \<open>JavaScript values\<close>

text \<open>
  The values that reach the model: the primitives, arrays, and plain objects as
  lists of key/value pairs in which a later pair overrides an earlier one with the
  same key, as \<open>JSON.parse\<close> does.  A parsed JSON document is such a value without
  \<open>undefined\<close> and without non-finite numbers.
\<close>

datatype jsval =
    JUndefined
  | JNull
  | JBool bool
  | JNum jsnum
  | JStr string
  | JArr "jsval list"
  | JObj "(string \<times> jsval) list"

text \<open>\<open>truthy v\<close> is \<open>!!v\<close>.\<close>

fun truthy :: "jsval \<Rightarrow> bool" where
  "truthy JUndefined = False"
| "truthy JNull = False"
| "truthy (JBool b) = b"
| "truthy (JNum n) = (n \<noteq> NaN \<and> n \<noteq> Fin 0)"
| "truthy (JStr s) = (s \<noteq> [])"
| "truthy (JArr _) = True"
| "truthy (JObj _) = True"

text \<open>
  \<open>jsprop v k\<close> is the property read \<open>v.k\<close> for a value other than \<open>null\<close> and
  \<open>undefined\<close> (on those the read throws, which the callers below write out) and a
  key that is not built in: only a plain object has such a property.
\<close>

fun jsprop :: "jsval \<Rightarrow> string \<Rightarrow> jsval" where
  "jsprop (JObj kvs) k = (case map_of (rev kvs) k of Some v \<Rightarrow> v | None \<Rightarrow> JUndefined)"
| "jsprop _ k = JUndefined"

text \<open>\<open>typeof v === 'number'\<close>.\<close>

fun typeof_number :: "jsval \<Rightarrow> bool" where
  "typeof_number (JNum _) = True"
| "typeof_number _ = False"

fun num_of :: "jsval \<Rightarrow> jsnum" where
  "num_of (JNum n) = n"
| "num_of _ = NaN"

datatype js_error = TypeError | SyntaxError | Error string

section \<open>Measurement entity (class Measurement)\<close>

text \<open>
  The index argument of \<open>updatePoint\<close>, documented as a number: any number,
  fractional, NaN and the infinities included, or \<open>undefined\<close> when the argument is
  left out.  \<open>index_number\<close> is the number that the comparisons of the range guard
  see.
\<close>

datatype js_index = NumberIndex jsnum | UndefinedIndex

fun index_number :: "js_index \<Rightarrow> jsnum" where
  "index_number (NumberIndex n) = n"
| "index_number UndefinedIndex = NaN"

text \<open>The comparisons \<open>a < b\<close> and \<open>a >= b\<close> on numbers: both are false when NaN is involved.\<close>

fun js_lt :: "jsnum \<Rightarrow> jsnum \<Rightarrow> bool" where
  "js_lt (Fin a) (Fin b) = (a < b)"
| "js_lt (Fin a) PosInf = True"
| "js_lt (Fin a) NegInf = False"
| "js_lt NegInf (Fin b) = True"
| "js_lt NegInf PosInf = True"
| "js_lt NegInf NegInf = False"
| "js_lt PosInf (Fin b) = False"
| "js_lt PosInf PosInf = False"
| "js_lt PosInf NegInf = False"
| "js_lt NaN b = False"
| "js_lt (Fin a) NaN = False"
| "js_lt PosInf NaN = False"
| "js_lt NegInf NaN = False"

definition js_ge :: "jsnum \<Rightarrow> jsnum \<Rightarrow> bool" where
  "js_ge a b = (\<not> isNaN a \<and> \<not> isNaN b \<and> \<not> js_lt a b)"

text \<open>
  An array object: its elements, and the own properties that a write under a key
  that is not an array index leaves on it.  Such a property is named by the string
  form of the key; distinct keys of the kinds above have distinct string forms, so
  the model keeps the property under the key itself.
\<close>

record 'a js_array =
  elems :: "'a list"
  named :: "js_index \<rightharpoonup> 'a"

text \<open>An array literal, and \<open>arr.push(v)\<close>.\<close>

definition array_of :: "'a list \<Rightarrow> 'a js_array" where
  "array_of xs = \<lparr>elems = xs, named = Map.empty\<rparr>"

definition array_push :: "'a js_array \<Rightarrow> 'a \<Rightarrow> 'a js_array" where
  "array_push arr v = arr\<lparr>elems := elems arr @ [v]\<rparr>"

text \<open>
  \<open>arr[k] = v\<close> for a key that has passed the range guard of \<open>updatePoint\<close>, so is
  neither below 0 nor at or above the length: a whole number replaces the element at
  that index; any other key (a fraction, NaN, \<open>undefined\<close>) becomes a property of
  the array object and leaves the elements and the length as they are.
\<close>

definition array_put :: "'a js_array \<Rightarrow> js_index \<Rightarrow> 'a \<Rightarrow> 'a js_array" where
  "array_put arr k v =
     (case k of
        NumberIndex (Fin r) \<Rightarrow>
          if r = real_of_int \<lfloor>r\<rfloor> \<and> 0 \<le> r \<and> r < real (length (elems arr))
          then arr\<lparr>elems := (elems arr)[nat \<lfloor>r\<rfloor> := v]\<rparr>
          else arr\<lparr>named := (named arr)(k \<mapsto> v)\<rparr>
      | _ \<Rightarrow> arr\<lparr>named := (named arr)(k \<mapsto> v)\<rparr>)"

text \<open>
  The points of a side are kept as typed points.  \<open>generateUUID()\<close> and
  \<open>new Date().toISOString()\<close> are passed in as \<open>uuid\<close> and \<open>now\<close>.  The two sides
  are distinct arrays.  The side is a string; any other value fails both comparisons
  with \<open>'left'\<close> and \<open>'right'\<close>, like a string that is neither.  A field whose name
  another record uses too carries a suffix: \<open>id_m\<close>, \<open>name_m\<close>, \<open>updatedAt_m\<close> here,
  \<open>id_p\<close> and so on in a project.
\<close>

record Measurement =
  id_m :: string
  timestamp_m :: string
  updatedAt_m :: string
  name_m :: string
  leftPoints :: "point js_array"
  rightPoints :: "point js_array"
  calculations :: aggregate
  notes_m :: string

definition calculate :: "Measurement \<Rightarrow> aggregate" where
  "calculate m = calculateMeasurements (elems (leftPoints m)) (elems (rightPoints m))"

definition new_Measurement ::
    "string \<Rightarrow> string \<Rightarrow> point js_array \<Rightarrow> point js_array \<Rightarrow> string \<Rightarrow> Measurement" where
  "new_Measurement uuid now ls rs nm =
     \<lparr>id_m = uuid, timestamp_m = now, updatedAt_m = now, name_m = nm,
      leftPoints = ls, rightPoints = rs,
      calculations = calculateMeasurements (elems ls) (elems rs), notes_m = []\<rparr>"

text \<open>
  The guard of \<open>addPoint\<close> and \<open>updatePoint\<close>, negated:
  \<open>!point || typeof point.x !== 'number' || typeof point.y !== 'number'\<close>.
\<close>

definition point_accepted :: "jsval \<Rightarrow> bool" where
  "point_accepted p =
     (\<not> (\<not> truthy p \<or> \<not> typeof_number (jsprop p ''x'') \<or> \<not> typeof_number (jsprop p ''y'')))"

definition as_point :: "jsval \<Rightarrow> point" where
  "as_point p = \<lparr>px = num_of (jsprop p ''x''), py = num_of (jsprop p ''y'')\<rparr>"

definition addPoint :: "string \<Rightarrow> jsval \<Rightarrow> string \<Rightarrow> Measurement \<Rightarrow> bool \<times> Measurement" where
  "addPoint side p now m =
     (if side \<noteq> ''left'' \<and> side \<noteq> ''right'' then (False, m)
      else if \<not> point_accepted p then (False, m)
      else
        let m1 = (if side = ''left''
                  then m\<lparr>leftPoints := array_push (leftPoints m) (as_point p)\<rparr>
                  else m\<lparr>rightPoints := array_push (rightPoints m) (as_point p)\<rparr>);
            m2 = m1\<lparr>calculations := calculate m1\<rparr>
        in (True, m2\<lparr>updatedAt_m := now\<rparr>))"

definition updatePoint ::
    "string \<Rightarrow> js_index \<Rightarrow> jsval \<Rightarrow> string \<Rightarrow> Measurement \<Rightarrow> bool \<times> Measurement" where
  "updatePoint side index newPoint now m =
     (if side \<noteq> ''left'' \<and> side \<noteq> ''right'' then (False, m)
      else
        let pointsArray = (if side = ''left'' then leftPoints m else rightPoints m)
        in if js_lt (index_number index) (Fin 0) \<or>
              js_ge (index_number index) (Fin (real (length (elems pointsArray))))
           then (False, m)
           else if \<not> point_accepted newPoint then (False, m)
           else
             let m1 = (if side = ''left''
                       then m\<lparr>leftPoints := array_put (leftPoints m) index (as_point newPoint)\<rparr>
                       else m\<lparr>rightPoints := array_put (rightPoints m) index (as_point newPoint)\<rparr>);
                 m2 = m1\<lparr>calculations := calculate m1\<rparr>
             in (True, m2\<lparr>updatedAt_m := now\<rparr>))"

section \<open>Project entity (class Project)\<close>

text \<open>
  A project as \<open>Project.fromJSON\<close> builds it: every field holds whatever value the
  document had there, \<open>undefined\<close> when it had none.
\<close>

record Project =
  id_p :: jsval
  name_p :: jsval
  description :: jsval
  createdAt :: jsval
  updatedAt_p :: jsval
  measurements :: jsval
  metadata :: jsval

definition default_metadata :: jsval where
  "default_metadata = JObj [(''author'', JStr []), (''tags'', JArr []), (''location'', JStr [])]"

text \<open>
  \<open>Project.fromJSON(data)\<close>: reading \<open>data.name\<close> throws on \<open>null\<close> and
  \<open>undefined\<close>.  The constructor's fresh id and timestamps are overwritten by the
  document's; a missing description takes the constructor's default \<open>''\<close>.
\<close>

definition fromJSON :: "jsval \<Rightarrow> js_error + Project" where
  "fromJSON data =
     (if data = JNull \<or> data = JUndefined then Inl TypeError
      else Inr
        \<lparr>id_p = jsprop data ''id'',
         name_p = jsprop data ''name'',
         description =
           (if jsprop data ''description'' = JUndefined then JStr []
            else jsprop data ''description''),
         createdAt = jsprop data ''createdAt'',
         updatedAt_p = jsprop data ''updatedAt'',
         measurements =
           (if truthy (jsprop data ''measurements'') then jsprop data ''measurements''
            else JArr []),
         metadata =
           (if truthy (jsprop data ''metadata'') then jsprop data ''metadata''
            else default_metadata)\<rparr>)"

text \<open>\<open>xs.map(p => Project.fromJSON(p))\<close> on an array: the first throw ends it.\<close>

fun fromJSON_each :: "jsval list \<Rightarrow> js_error + Project list" where
  "fromJSON_each [] = Inr []"
| "fromJSON_each (d # ds) =
     (case fromJSON d of
        Inl e \<Rightarrow> Inl e
      | Inr p \<Rightarrow> (case fromJSON_each ds of Inl e \<Rightarrow> Inl e | Inr ps \<Rightarrow> Inr (p # ps)))"

text \<open>
  The same call on any value that is not \<open>null\<close> or \<open>undefined\<close>: only an array has
  a callable \<open>map\<close>, on anything else the call throws a \<open>TypeError\<close>.
\<close>

fun map_fromJSON :: "jsval \<Rightarrow> js_error + Project list" where
  "map_fromJSON (JArr ds) = fromJSON_each ds"
| "map_fromJSON _ = Inl TypeError"

section \<open>Application state store (class StateManager)\<close>

record ui_state =
  selectedMeasurementId :: "string option"
  historyPanelOpen :: bool
  settingsPanelOpen :: bool

text \<open>
  \<open>currentProject\<close> holds a reference to a member of \<open>projects\<close>; none of the
  operations below writes through it, so the model keeps the referenced project by
  value.  \<open>settings\<close> is an object, here the map from its keys to their values.
  Ids passed to the operations are strings or \<open>null\<close>, as documented.

  \<open>notifyListeners\<close> is left out: it hands every listener a copy of the state
  inside a \<open>try/catch\<close> and writes only the re-entrancy flag; listeners are taken
  not to call back into the store.
\<close>

record StateManager =
  currentProject :: "Project option"
  currentProjectId :: "string option"
  projects :: "Project list"
  settings :: "string \<rightharpoonup> jsval"
  ui :: ui_state

definition getDefaultSettings :: "string \<rightharpoonup> jsval" where
  "getDefaultSettings =
     [''defaultUnit'' \<mapsto> JStr ''meters'', ''autoSave'' \<mapsto> JBool True,
      ''showGrid'' \<mapsto> JBool True, ''showLabels'' \<mapsto> JBool True,
      ''theme'' \<mapsto> JStr ''light'', ''maxHistorySize'' \<mapsto> JNum (Fin 50)]"

definition new_StateManager :: StateManager where
  "new_StateManager =
     \<lparr>currentProject = None, currentProjectId = None, projects = [],
      settings = getDefaultSettings,
      ui = \<lparr>selectedMeasurementId = None, historyPanelOpen = False,
             settingsPanelOpen = False\<rparr>\<rparr>"

text \<open>
  The own enumerable properties that an object spread \<open>{...v}\<close> copies: the
  entries of an object, the elements of an array and the characters of a string
  under their decimal indices, nothing for the other values.
\<close>

definition digit_char :: "nat \<Rightarrow> char" where
  "digit_char d = ''0123456789'' ! d"

fun show_nat :: "nat \<Rightarrow> string" where
  "show_nat n = (if n < 10 then [digit_char n] else show_nat (n div 10) @ [digit_char (n mod 10)])"

declare show_nat.simps [simp del]

definition indexed :: "jsval list \<Rightarrow> (string \<rightharpoonup> jsval)" where
  "indexed xs = map_of (zip (map show_nat [0..<length xs]) xs)"

fun own_props :: "jsval \<Rightarrow> (string \<rightharpoonup> jsval)" where
  "own_props (JObj kvs) = map_of (rev kvs)"
| "own_props (JArr xs) = indexed xs"
| "own_props (JStr s) = indexed (map (\<lambda>c. JStr [c]) s)"
| "own_props _ = Map.empty"

text \<open>\<open>xs.findIndex(P)\<close>, \<open>-1\<close> when no element satisfies \<open>P\<close>.\<close>

fun findIndex :: "('a \<Rightarrow> bool) \<Rightarrow> 'a list \<Rightarrow> int" where
  "findIndex P [] = - 1"
| "findIndex P (x # xs) =
     (if P x then 0 else (let i = findIndex P xs in if i = - 1 then - 1 else i + 1))"

definition getProject :: "string \<Rightarrow> StateManager \<Rightarrow> Project option" where
  "getProject projectId s = find (\<lambda>p. id_p p = JStr projectId) (projects s)"

definition removeProject :: "string \<Rightarrow> StateManager \<Rightarrow> bool \<times> StateManager" where
  "removeProject projectId s =
     (let index = findIndex (\<lambda>p. id_p p = JStr projectId) (projects s)
      in if index = - 1 then (False, s)
         else
           let s1 = (if currentProjectId s = Some projectId
                     then s\<lparr>currentProject := None, currentProjectId := None\<rparr>
                     else s)
           in (True, s1\<lparr>projects := take (nat index) (projects s1)
                                       @ drop (nat index + 1) (projects s1)\<rparr>))"

text \<open>
  \<open>setCurrentProject(projectId)\<close>: \<open>None\<close> is \<open>null\<close>; the empty string is falsy
  too and clears the selection like \<open>null\<close>.
\<close>

definition setCurrentProject :: "string option \<Rightarrow> StateManager \<Rightarrow> bool \<times> StateManager" where
  "setCurrentProject projectId s =
     (if projectId = None \<or> projectId = Some []
      then (True, s\<lparr>currentProject := None, currentProjectId := None\<rparr>)
      else
        (case getProject (the projectId) s of
           None \<Rightarrow> (False, s)
         | Some project \<Rightarrow>
             (True, s\<lparr>currentProject := Some project, currentProjectId := projectId\<rparr>)))"

definition updateSettings :: "jsval \<Rightarrow> StateManager \<Rightarrow> StateManager" where
  "updateSettings updates s = s\<lparr>settings := settings s ++ own_props updates\<rparr>"

definition clearAll :: "StateManager \<Rightarrow> StateManager" where
  "clearAll s = new_StateManager"

text \<open>
  \<open>loadState(data)\<close> with \<open>data = {projects, settings, currentProjectId}\<close>.
  The whole body sits in a \<open>try/catch\<close>; the only throw is from the mapping over
  the projects, before the first assignment.
\<close>

record load_data =
  data_projects :: jsval
  data_settings :: jsval
  data_currentProjectId :: "string option"

definition loadState :: "load_data \<Rightarrow> StateManager \<Rightarrow> StateManager" where
  "loadState data s =
     (case map_fromJSON (if truthy (data_projects data) then data_projects data else JArr []) of
        Inl e \<Rightarrow> s
      | Inr ps \<Rightarrow>
          let s1 = s\<lparr>projects := ps\<rparr>;
              s2 = s1\<lparr>settings := getDefaultSettings
                         ++ own_props (if truthy (data_settings data) then data_settings data
                                       else JObj [])\<rparr>
          in if data_currentProjectId data \<noteq> None \<and> data_currentProjectId data \<noteq> Some []
             then snd (setCurrentProject (data_currentProjectId data) s2)
             else s2)"

text \<open>
  The invariant of the store: a non-null \<open>currentProjectId\<close> is the id of a project
  in \<open>projects\<close>.
\<close>

definition current_resolves :: "StateManager \<Rightarrow> bool" where
  "current_resolves s =
     (case currentProjectId s of
        None \<Rightarrow> True
      | Some i \<Rightarrow> list_ex (\<lambda>p. id_p p = JStr i) (projects s))"

section \<open>Import of a backup (PersistenceManager.importAllData)\<close>

text \<open>
  What the file reader delivers: a read error, a text that \<open>JSON.parse\<close> rejects, or
  the parsed document.  The promise resolves with \<open>true\<close> or rejects with an error.
  \<open>saveAll()\<close> after the update writes to local storage only, catches its own
  errors, and is left out.  The persistence manager is taken to hold a state manager,
  the store \<open>s\<close> below.
\<close>

datatype import_input = ReadFailed | NotJSON | Parsed jsval

datatype import_result = Resolved bool | Rejected js_error

definition invalid_format :: js_error where
  "invalid_format = Error ''Invalid backup file format''"

definition importAllData :: "import_input \<Rightarrow> StateManager \<Rightarrow> import_result \<times> StateManager" where
  "importAllData inp s =
     (case inp of
        ReadFailed \<Rightarrow> (Rejected (Error ''Failed to read file''), s)
      | NotJSON \<Rightarrow> (Rejected SyntaxError, s)
      | Parsed data \<Rightarrow>
          if data = JNull \<or> data = JUndefined then (Rejected TypeError, s)
          else if \<not> truthy (jsprop data ''projects'') \<or> \<not> truthy (jsprop data ''version'')
          then (Rejected invalid_format, s)
          else
            (case map_fromJSON (jsprop data ''projects'') of
               Inl e \<Rightarrow> (Rejected e, s)
             | Inr ps \<Rightarrow>
                 let imported = (if truthy (jsprop data ''settings'') then jsprop data ''settings''
                                 else JObj [])
                 in (Resolved True, updateSettings imported (s\<lparr>projects := ps\<rparr>))))"

text \<open>
  A parsed document is importable when its \<open>version\<close> is truthy and its \<open>projects\<close>
  is an array none of whose entries is \<open>null\<close> or \<open>undefined\<close>.
\<close>

definition importable :: "jsval \<Rightarrow> bool" where
  "importable data =
     (truthy (jsprop data ''version'') \<and>
      (case jsprop data ''projects'' of
         JArr ds \<Rightarrow> JNull \<notin> set ds \<and> JUndefined \<notin> set ds
       | _ \<Rightarrow> False))"

section \<open>Properties of the measurement aggregate\<close>

lemma calculateMeasurements_short_right:
  "length rights < 2 \<Longrightarrow>
   calculateMeasurements lefts rights =
     zero_aggregate\<lparr>leftDistance :=
       (if 2 \<le> length lefts then dist (lefts ! 0) (lefts ! 1) else Fin 0)\<rparr>"
  by (simp add: calculateMeasurements_def zero_aggregate_def)

lemma calculateMeasurements_short_left:
  "length lefts < 2 \<Longrightarrow>
   calculateMeasurements lefts rights =
     zero_aggregate\<lparr>rightDistance :=
       (if 2 \<le> length rights then dist (rights ! 0) (rights ! 1) else Fin 0)\<rparr>"
  by (simp add: calculateMeasurements_def zero_aggregate_def)

lemma dist_3_4:
  "dist \<lparr>px = Fin 0, py = Fin 0\<rparr> \<lparr>px = Fin 3, py = Fin 4\<rparr> = Fin 5"
  by (simp add: dist_def js_sub_def real_sqrt_unique)

text \<open>
  C1, as stated, at left points \<open>[(0,0), (3,4)]\<close> and no right point: the right
  side is short, yet \<open>leftDistance\<close> is 5 and the aggregate is not the all-zero one.
\<close>

theorem C1_counterexample:
  "length ([] :: point list) < 2 \<and>
   calculateMeasurements [\<lparr>px = Fin 0, py = Fin 0\<rparr>, \<lparr>px = Fin 3, py = Fin 4\<rparr>] []
     \<noteq> zero_aggregate \<and>
   leftDistance
     (calculateMeasurements [\<lparr>px = Fin 0, py = Fin 0\<rparr>, \<lparr>px = Fin 3, py = Fin 4\<rparr>] [])
     = Fin 5"
  by (simp add: calculateMeasurements_short_right zero_aggregate_def dist_3_4)

text \<open>
  C1 (amended): \<open>calculateMeasurements\<close> is a total function of the two point
  lists.  When either list has fewer than 2 points, \<open>avgWidth\<close>, \<open>length\<close>, \<open>area\<close>
  and \<open>areaDecimal\<close> are 0 and the distance of every side with fewer than 2 points
  is 0; a side that does have 2 points still reports the distance between its first
  two points.  In particular the aggregate is all-zero when both sides are short.
\<close>

theorem C1_short_side_aggregate:
  assumes "length lefts < 2 \<or> length rights < 2"
  shows "calculateMeasurements lefts rights =
           \<lparr>leftDistance =
              (if 2 \<le> length lefts then dist (lefts ! 0) (lefts ! 1) else Fin 0),
            rightDistance =
              (if 2 \<le> length rights then dist (rights ! 0) (rights ! 1) else Fin 0),
            avgWidth = Fin 0, length_r = Fin 0, area = Fin 0, areaDecimal = Fin 0\<rparr> \<and>
         (length lefts < 2 \<and> length rights < 2 \<longrightarrow>
            calculateMeasurements lefts rights = zero_aggregate)"
  using assms by (auto simp add: calculateMeasurements_def zero_aggregate_def)

theorem C1_short_side_aggregate_witness:
  "calculateMeasurements [\<lparr>px = Fin 1, py = Fin 2\<rparr>] [] = zero_aggregate \<and>
   calculateMeasurements [\<lparr>px = Fin 0, py = Fin 0\<rparr>, \<lparr>px = Fin 3, py = Fin 4\<rparr>] []
     = zero_aggregate\<lparr>leftDistance := Fin 5\<rparr>"
  using C1_short_side_aggregate [of "[\<lparr>px = Fin 1, py = Fin 2\<rparr>]" "[]"]
        C1_short_side_aggregate
          [of "[\<lparr>px = Fin 0, py = Fin 0\<rparr>, \<lparr>px = Fin 3, py = Fin 4\<rparr>]" "[]"]
  by (simp add: zero_aggregate_def dist_3_4)

lemma dist_x_axis_100:
  "dist \<lparr>px = Fin 0, py = Fin c\<rparr> \<lparr>px = Fin 100, py = Fin c\<rparr> = Fin 100"
  by (simp add: dist_def js_sub_def)

lemma dist_midpoints_50:
  "dist (midpoint \<lparr>px = Fin 0, py = Fin 0\<rparr> \<lparr>px = Fin 100, py = Fin 0\<rparr>)
        (midpoint \<lparr>px = Fin 0, py = Fin 50\<rparr> \<lparr>px = Fin 100, py = Fin 50\<rparr>) = Fin 50"
  by (simp add: dist_def midpoint_def js_sub_def)

lemma sqftToDecimal_rectangle: "sqftToDecimal (Fin 53819.5) = Fin 123.553"
  by (simp add: sqftToDecimal_def)

lemma calculateMeasurements_rectangle:
  "calculateMeasurements
     [\<lparr>px = Fin 0, py = Fin 0\<rparr>, \<lparr>px = Fin 100, py = Fin 0\<rparr>]
     [\<lparr>px = Fin 0, py = Fin 50\<rparr>, \<lparr>px = Fin 100, py = Fin 50\<rparr>]
   = \<lparr>leftDistance = Fin 100, rightDistance = Fin 100, avgWidth = Fin 100,
      length_r = Fin 50, area = Fin 53819.5, areaDecimal = Fin 123.553\<rparr>"
  using sqftToDecimal_rectangle
  by (simp add: calculateMeasurements_def zero_aggregate_def dist_x_axis_100
        dist_midpoints_50 Let_def)

text \<open>
  C2, as stated, at its own input: the code's \<open>avgWidth\<close> is the mean of the two
  side distances, 100 and not 50, and its \<open>length\<close> is the distance between the two
  midpoints, 50 and not 100.
\<close>

theorem C2_counterexample:
  "avgWidth (calculateMeasurements
     [\<lparr>px = Fin 0, py = Fin 0\<rparr>, \<lparr>px = Fin 100, py = Fin 0\<rparr>]
     [\<lparr>px = Fin 0, py = Fin 50\<rparr>, \<lparr>px = Fin 100, py = Fin 50\<rparr>]) \<noteq> Fin 50 \<and>
   length_r (calculateMeasurements
     [\<lparr>px = Fin 0, py = Fin 0\<rparr>, \<lparr>px = Fin 100, py = Fin 0\<rparr>]
     [\<lparr>px = Fin 0, py = Fin 50\<rparr>, \<lparr>px = Fin 100, py = Fin 50\<rparr>]) \<noteq> Fin 100"
  by (simp add: calculateMeasurements_rectangle)

text \<open>
  C2 (amended): for left points \<open>[(0,0), (100,0)]\<close> and right points
  \<open>[(0,50), (100,50)]\<close>, \<open>calculateMeasurements\<close> returns \<open>leftDistance = 100\<close>,
  \<open>rightDistance = 100\<close>, \<open>avgWidth = 100\<close>, \<open>length = 50\<close>, \<open>area = 53819.5\<close>
  square feet and \<open>areaDecimal = 123.553\<close>, which is 123.6 to one decimal place.
\<close>

theorem C2_rectangle_scenario:
  "calculateMeasurements
     [\<lparr>px = Fin 0, py = Fin 0\<rparr>, \<lparr>px = Fin 100, py = Fin 0\<rparr>]
     [\<lparr>px = Fin 0, py = Fin 50\<rparr>, \<lparr>px = Fin 100, py = Fin 50\<rparr>]
   = \<lparr>leftDistance = Fin 100, rightDistance = Fin 100, avgWidth = Fin 100,
      length_r = Fin 50, area = Fin 53819.5, areaDecimal = Fin 123.553\<rparr> \<and>
   \<bar>123.553 - 123.6\<bar> < (0.05 :: real)"
  by (simp add: calculateMeasurements_rectangle)

text \<open>
  C3: when both sides have at least 2 points, points appended to either side do not
  change the result of \<open>calculateMeasurements\<close>, and the result is the one computed
  from \<open>left[0]\<close>, \<open>left[1]\<close>, \<open>right[0]\<close> and \<open>right[1]\<close> alone.
\<close>

theorem C3_only_first_two_points:
  assumes "2 \<le> length lefts" and "2 \<le> length rights"
  shows "calculateMeasurements (lefts @ extraLeft) (rights @ extraRight)
           = calculateMeasurements lefts rights \<and>
         calculateMeasurements lefts rights
           = calculateMeasurements [lefts ! 0, lefts ! 1]
                                   [rights ! 0, rights ! 1]"
proof -
  obtain l0 l1 ls where l: "lefts = l0 # l1 # ls"
    using assms(1) by (cases lefts; cases "tl lefts") auto
  obtain r0 r1 rs where r: "rights = r0 # r1 # rs"
    using assms(2) by (cases rights; cases "tl rights") auto
  show ?thesis
    unfolding l r by (simp add: calculateMeasurements_def)
qed

theorem C3_only_first_two_points_witness:
  "calculateMeasurements
     ([\<lparr>px = Fin 0, py = Fin 0\<rparr>, \<lparr>px = Fin 100, py = Fin 0\<rparr>] @ [\<lparr>px = Fin 7, py = NaN\<rparr>])
     ([\<lparr>px = Fin 0, py = Fin 50\<rparr>, \<lparr>px = Fin 100, py = Fin 50\<rparr>] @ [\<lparr>px = PosInf, py = Fin 9\<rparr>])
   = \<lparr>leftDistance = Fin 100, rightDistance = Fin 100, avgWidth = Fin 100,
      length_r = Fin 50, area = Fin 53819.5, areaDecimal = Fin 123.553\<rparr>"
  using C3_only_first_two_points
    [of "[\<lparr>px = Fin 0, py = Fin 0\<rparr>, \<lparr>px = Fin 100, py = Fin 0\<rparr>]"
        "[\<lparr>px = Fin 0, py = Fin 50\<rparr>, \<lparr>px = Fin 100, py = Fin 50\<rparr>]"
        "[\<lparr>px = Fin 7, py = NaN\<rparr>]" "[\<lparr>px = PosInf, py = Fin 9\<rparr>]"]
  by (simp add: calculateMeasurements_rectangle)

section \<open>Properties of the undo/redo manager\<close>

subsection \<open>Pushing at the tail, walking back and forth\<close>

lemma push_enabled_fields:
  "maxHistory (push s a t m) = maxHistory m \<and> isEnabled (push s a t m) = isEnabled m"
  by (simp add: push_def Let_def)

lemma push_at_tail:
  assumes "isEnabled m" and "currentIndex m = int (length (history m)) - 1"
  shows "push s a t m =
           (if maxHistory m < int (length (history m)) + 1
            then m\<lparr>history := tl (history m @ [item_of (s, a, t)])\<rparr>
            else m\<lparr>history := history m @ [item_of (s, a, t)],
                   currentIndex := int (length (history m))\<rparr>)"
  using assms by (simp add: push_def Let_def item_of_def)

lemma drop_after_shift:
  "drop n (tl (H @ [e]) @ r) = drop (Suc n) (H @ e # r)"
  by (cases H) (simp_all add: drop_Suc)

lemma push_all_from_tail:
  assumes "isEnabled m" and "currentIndex m = int (length (history m)) - 1"
      and "int (length (history m)) \<le> maxHistory m"
  shows "push_all ps m =
           m\<lparr>history := drop (length (history m) + length ps - nat (maxHistory m))
                              (history m @ map item_of ps),
             currentIndex := int (min (length (history m) + length ps) (nat (maxHistory m))) - 1\<rparr>"
  using assms
proof (induction ps arbitrary: m)
  case Nil
  then show ?case by simp
next
  case (Cons p ps)
  obtain s a t where p: "p = (s, a, t)" by (cases p) auto
  let ?m' = "push s a t m"
  show ?case
  proof (cases "maxHistory m < int (length (history m)) + 1")
    case True
    then have full: "nat (maxHistory m) = length (history m)"
      using Cons.prems(3) by linarith
    have m': "?m' = m\<lparr>history := tl (history m @ [item_of (s, a, t)])\<rparr>"
      using True Cons.prems by (simp add: push_at_tail)
    have "push_all ps ?m' =
            ?m'\<lparr>history := drop (length (history ?m') + length ps - nat (maxHistory ?m'))
                              (history ?m' @ map item_of ps),
                 currentIndex := int (min (length (history ?m') + length ps) (nat (maxHistory ?m'))) - 1\<rparr>"
      by (rule Cons.IH) (use Cons.prems m' in auto)
    then show ?thesis
      using full by (simp add: p m' drop_after_shift del: drop_append)
  next
    case False
    have m': "?m' = m\<lparr>history := history m @ [item_of (s, a, t)],
                       currentIndex := int (length (history m))\<rparr>"
      using False Cons.prems by (simp add: push_at_tail)
    have "push_all ps ?m' =
            ?m'\<lparr>history := drop (length (history ?m') + length ps - nat (maxHistory ?m'))
                              (history ?m' @ map item_of ps),
                 currentIndex := int (min (length (history ?m') + length ps) (nat (maxHistory ?m'))) - 1\<rparr>"
      by (rule Cons.IH) (use Cons.prems False m' in auto)
    then show ?thesis
      by (simp add: p m')
  qed
qed

lemma undo_n_back:
  assumes "history m = as @ bs @ c # cs" and "currentIndex m = int (length as + length bs)"
  shows "undo_n (length bs) m = (map Returns (rev bs), m\<lparr>currentIndex := int (length as)\<rparr>)"
  using assms
proof (induction bs arbitrary: m c cs rule: rev_induct)
  case Nil
  then show ?case by simp
next
  case (snoc b bs)
  let ?m' = "m\<lparr>currentIndex := int (length as + length bs)\<rparr>"
  have u: "undo m = (Returns b, ?m')"
    using snoc.prems by (simp add: undo_def canUndo_def Let_def nth_append)
  have "undo_n (length bs) ?m' = (map Returns (rev bs), ?m'\<lparr>currentIndex := int (length as)\<rparr>)"
    by (rule snoc.IH [where c = b and cs = "c # cs"]) (use snoc.prems in auto)
  then show ?case
    by (simp add: u)
qed

lemma redo_n_forward:
  assumes "history m = as @ a # bs @ cs" and "currentIndex m = int (length as)"
  shows "redo_n (length bs) m = (map Returns bs, m\<lparr>currentIndex := int (length as + length bs)\<rparr>)"
  using assms
proof (induction bs arbitrary: m a as)
  case Nil
  then show ?case by simp
next
  case (Cons b bs)
  let ?m' = "m\<lparr>currentIndex := int (length as) + 1\<rparr>"
  have r: "redo m = (Returns b, ?m')"
    using Cons.prems by (simp add: redo_def canRedo_def Let_def nth_append)
  have "redo_n (length bs) ?m' =
          (map Returns bs, ?m'\<lparr>currentIndex := int (length (as @ [a]) + length bs)\<rparr>)"
    by (rule Cons.IH [where a = b and as = "as @ [a]"]) (use Cons.prems in auto)
  then show ?case
    by (simp add: r)
qed

lemma push_all_fresh:
  assumes "0 \<le> bound"
  shows "push_all ps (new_UndoRedoManager bound) =
           \<lparr>history = drop (length ps - nat bound) (map item_of ps),
            currentIndex = int (min (length ps) (nat bound)) - 1,
            maxHistory = bound, isEnabled = True\<rparr>"
  using push_all_from_tail [of "new_UndoRedoManager bound" ps] assms
  by (simp add: new_UndoRedoManager_def)

lemma state_item_of: "state (item_of p) = fst p"
  by (cases p) (simp add: item_of_def)

lemma item_of_triple: "item_of (s, a, t) = \<lparr>state = s, action = a, timestamp = t\<rparr>"
  by (simp add: item_of_def)

subsection \<open>Reachable states keep the cursor in range\<close>

lemma cursor_in_range_fresh: "cursor_in_range (new_UndoRedoManager bound)"
  by (simp add: cursor_in_range_def new_UndoRedoManager_def)

lemma cursor_in_range_push:
  assumes "cursor_in_range m"
  shows "cursor_in_range (push s a t m)"
proof (cases "currentIndex m < int (length (history m)) - 1")
  case True
  then have "length (slice0 (history m) (currentIndex m + 1)) = nat (currentIndex m + 1)"
    using assms by (simp add: slice0_def cursor_in_range_def)
  then show ?thesis
    using assms True by (auto simp add: push_def Let_def cursor_in_range_def)
next
  case False
  then show ?thesis
    using assms by (auto simp add: push_def Let_def cursor_in_range_def)
qed

lemma cursor_in_range_clear: "cursor_in_range (clear m)"
  by (simp add: cursor_in_range_def clear_def)

lemma push_then_no_redo:
  assumes "isEnabled m" and "cursor_in_range m"
  shows "fst (redo (push s a t m)) = ReturnsNull"
proof (cases "currentIndex m < int (length (history m)) - 1")
  case True
  then have "length (slice0 (history m) (currentIndex m + 1)) = nat (currentIndex m + 1)"
    using assms by (simp add: slice0_def cursor_in_range_def)
  then show ?thesis
    using assms True by (auto simp add: push_def Let_def cursor_in_range_def redo_def canRedo_def)
next
  case False
  then show ?thesis
    using assms by (auto simp add: push_def Let_def cursor_in_range_def redo_def canRedo_def)
qed

subsection \<open>The frame of undo and redo\<close>

text \<open>
  C10: \<open>undo\<close> and \<open>redo\<close> never change the history log, its length, the bound
  \<open>maxHistory\<close> or the \<open>isEnabled\<close> flag.  A call that returns \<open>null\<close> leaves the
  whole manager as it was; a call that returns an item has moved \<open>currentIndex\<close> by
  exactly one (down for \<open>undo\<close>, up for \<open>redo\<close>) onto an existing entry, and the
  item is the stored entry under the new cursor.  A call returns \<open>null\<close> exactly
  when \<open>canUndo\<close>, respectively \<open>canRedo\<close>, is false.  While the cursor is in range, as it
  is in every state reached from a fresh manager, neither call throws and the cursor
  stays in range.
\<close>

theorem C10_undo_redo_frame:
  "history (snd (undo m)) = history m \<and> maxHistory (snd (undo m)) = maxHistory m \<and>
   isEnabled (snd (undo m)) = isEnabled m \<and>
   (fst (undo m) = ReturnsNull) = (\<not> canUndo m) \<and>
   (fst (undo m) = ReturnsNull \<longrightarrow> snd (undo m) = m) \<and>
   (\<forall>e. fst (undo m) = Returns e \<longrightarrow>
      currentIndex (snd (undo m)) = currentIndex m - 1 \<and>
      0 \<le> currentIndex (snd (undo m)) \<and>
      currentIndex (snd (undo m)) < int (length (history m)) \<and>
      e = history m ! nat (currentIndex (snd (undo m)))) \<and>
   (cursor_in_range m \<longrightarrow>
      fst (undo m) \<noteq> ThrowsTypeError \<and> cursor_in_range (snd (undo m))) \<and>
   history (snd (redo m)) = history m \<and> maxHistory (snd (redo m)) = maxHistory m \<and>
   isEnabled (snd (redo m)) = isEnabled m \<and>
   (fst (redo m) = ReturnsNull) = (\<not> canRedo m) \<and>
   (fst (redo m) = ReturnsNull \<longrightarrow> snd (redo m) = m) \<and>
   (\<forall>e. fst (redo m) = Returns e \<longrightarrow>
      currentIndex (snd (redo m)) = currentIndex m + 1 \<and>
      0 \<le> currentIndex (snd (redo m)) \<and>
      currentIndex (snd (redo m)) < int (length (history m)) \<and>
      e = history m ! nat (currentIndex (snd (redo m)))) \<and>
   (cursor_in_range m \<longrightarrow>
      fst (redo m) \<noteq> ThrowsTypeError \<and> cursor_in_range (snd (redo m)))"
  by (auto simp add: undo_def redo_def canUndo_def canRedo_def cursor_in_range_def Let_def)

text \<open>
  C10 at a manager holding two entries with the cursor on the second: \<open>undo\<close>
  returns the first entry and moves the cursor to 0, \<open>redo\<close> returns \<open>null\<close> and
  changes nothing.
\<close>

theorem C10_undo_redo_frame_witness:
  "fst (undo \<lparr>history = [item_of (1::nat, ''CALCULATE'', 10), item_of (2, ''CALCULATE'', 20)],
            currentIndex = 1, maxHistory = 50, isEnabled = True\<rparr>)
     = Returns (item_of (1, ''CALCULATE'', 10)) \<and>
   snd (undo \<lparr>history = [item_of (1::nat, ''CALCULATE'', 10), item_of (2, ''CALCULATE'', 20)],
            currentIndex = 1, maxHistory = 50, isEnabled = True\<rparr>)
     = \<lparr>history = [item_of (1::nat, ''CALCULATE'', 10), item_of (2, ''CALCULATE'', 20)],
            currentIndex = 0, maxHistory = 50, isEnabled = True\<rparr> \<and>
   fst (redo \<lparr>history = [item_of (1::nat, ''CALCULATE'', 10), item_of (2, ''CALCULATE'', 20)],
            currentIndex = 1, maxHistory = 50, isEnabled = True\<rparr>) = ReturnsNull \<and>
   snd (redo \<lparr>history = [item_of (1::nat, ''CALCULATE'', 10), item_of (2, ''CALCULATE'', 20)],
            currentIndex = 1, maxHistory = 50, isEnabled = True\<rparr>)
     = \<lparr>history = [item_of (1::nat, ''CALCULATE'', 10), item_of (2, ''CALCULATE'', 20)],
            currentIndex = 1, maxHistory = 50, isEnabled = True\<rparr>"
  using C10_undo_redo_frame
    [of "\<lparr>history = [item_of (1::nat, ''CALCULATE'', 10), item_of (2, ''CALCULATE'', 20)],
            currentIndex = 1, maxHistory = 50, isEnabled = True\<rparr>"]
  by (simp add: undo_def redo_def canUndo_def canRedo_def)

subsection \<open>Undo and redo after a run of pushes\<close>

text \<open>
  C4, as stated, on a fresh manager with bound 2 and \<open>N = 3\<close> pushes: the oldest
  snapshot has been evicted, so the second of the \<open>N - 1 = 2\<close> calls of \<open>undo\<close>
  returns \<open>null\<close> and not the first snapshot.
\<close>

theorem C4_counterexample:
  "int (length [(1::nat, ''UPDATE'', 10::int), (2, ''UPDATE'', 20), (3, ''UPDATE'', 30)]) - 1 = 2 \<and>
   fst (undo_n (Suc (Suc 0))
     (push_all [(1::nat, ''UPDATE'', 10), (2, ''UPDATE'', 20), (3, ''UPDATE'', 30)]
        (new_UndoRedoManager 2)))
   = [Returns (item_of (2, ''UPDATE'', 20)), ReturnsNull] \<and>
   fst (undo_n (Suc (Suc 0))
     (push_all [(1::nat, ''UPDATE'', 10), (2, ''UPDATE'', 20), (3, ''UPDATE'', 30)]
        (new_UndoRedoManager 2)))
   \<noteq> [Returns (item_of (2, ''UPDATE'', 20)), Returns (item_of (1, ''UPDATE'', 10))]"
  by (simp add: push_def new_UndoRedoManager_def undo_def canUndo_def item_of_def Let_def)

text \<open>
  C4 (amended): on a fresh manager with bound \<open>maxHistory\<close>, after pushing \<open>N\<close>
  snapshots with \<open>1 \<le> N \<le> maxHistory\<close> the history holds exactly the pushed
  entries with the cursor on the last one.  Then \<open>N - 1\<close> calls of \<open>undo\<close> return
  the entries below the last one in reverse order and leave the cursor at 0, and
  \<open>N - 1\<close> calls of \<open>redo\<close> after that return the entries above the first one in
  forward order and bring the manager back to the state after the pushes, the cursor
  on the most recent snapshot.  A push after \<open>j\<close> undos, \<open>1 \<le> j \<le> N - 1\<close>,
  keeps the first \<open>N - j\<close> entries, drops the others, appends the new entry with the
  cursor on it, and a \<open>redo\<close> after it returns \<open>null\<close>.
\<close>

theorem C4_undo_redo_sequence:
  assumes "pushes \<noteq> []" and "int (length pushes) \<le> bound"
  shows "let N = length pushes;
             es = map item_of pushes;
             m1 = push_all pushes (new_UndoRedoManager bound);
             m2 = snd (undo_n (N - 1) m1)
         in history m1 = es \<and> currentIndex m1 = int N - 1 \<and>
            getCurrentState m1 = Some (fst (last pushes)) \<and>
            fst (undo_n (N - 1) m1) = map Returns (rev (butlast es)) \<and>
            m2 = m1\<lparr>currentIndex := 0\<rparr> \<and>
            fst (redo_n (N - 1) m2) = map Returns (tl es) \<and>
            snd (redo_n (N - 1) m2) = m1 \<and>
            (\<forall>j s a t. 1 \<le> j \<and> j \<le> N - 1 \<longrightarrow>
               history (push s a t (snd (undo_n j m1)))
                 = take (N - j) es @ [item_of (s, a, t)] \<and>
               currentIndex (push s a t (snd (undo_n j m1))) = int (N - j) \<and>
               fst (redo (push s a t (snd (undo_n j m1)))) = ReturnsNull)"
proof -
  define N where "N = length pushes"
  define es where "es = map item_of pushes"
  define m1 where "m1 = push_all pushes (new_UndoRedoManager bound)"
  define m2 where "m2 = snd (undo_n (N - 1) m1)"
  have N: "0 < N" "int N \<le> bound" "length es = N"
    using assms by (simp_all add: N_def es_def)
  have m1: "m1 = \<lparr>history = es, currentIndex = int N - 1, maxHistory = bound, isEnabled = True\<rparr>"
    using N(1,2) unfolding m1_def
    by (subst push_all_fresh) (simp_all add: N_def es_def min_def)
  have es_ne: "es \<noteq> []" using N by auto
  have idx: "nat (int N - 1) = N - 1"
    by simp
  have "es ! (N - 1) = item_of (last pushes)"
    using assms(1) by (simp add: es_def N_def last_conv_nth)
  then have cur: "getCurrentState m1 = Some (fst (last pushes))"
    using N by (simp add: m1 getCurrentState_def idx state_item_of)
  have undo_j: "undo_n j m1 = (map Returns (rev (drop (N - 1 - j) (butlast es))),
                               m1\<lparr>currentIndex := int (N - 1 - j)\<rparr>)"
    if "j \<le> N - 1" for j
  proof -
    have split: "history m1 = take (N - 1 - j) (butlast es) @ drop (N - 1 - j) (butlast es) @ last es # []"
    proof -
      have "history m1 = butlast es @ [last es]"
        using es_ne by (simp add: m1)
      also have "butlast es = take (N - 1 - j) (butlast es) @ drop (N - 1 - j) (butlast es)"
        by simp
      finally show ?thesis by simp
    qed
    have len: "length (drop (N - 1 - j) (butlast es)) = j"
      using that N by simp
    have "undo_n (length (drop (N - 1 - j) (butlast es))) m1 =
            (map Returns (rev (drop (N - 1 - j) (butlast es))),
             m1\<lparr>currentIndex := int (length (take (N - 1 - j) (butlast es)))\<rparr>)"
      by (rule undo_n_back [OF split]) (use that N in \<open>simp add: m1\<close>)
    then show ?thesis
      using that N by (simp add: len)
  qed
  have u: "undo_n (N - 1) m1 = (map Returns (rev (butlast es)), m1\<lparr>currentIndex := 0\<rparr>)"
    using undo_j [of "N - 1"] by simp
  have m2: "m2 = m1\<lparr>currentIndex := 0\<rparr>"
    using u by (simp add: m2_def)
  have r: "redo_n (N - 1) m2 = (map Returns (tl es), m1)"
  proof -
    have split: "history m2 = [] @ hd es # tl es @ []"
      using es_ne by (simp add: m2 m1)
    have "redo_n (length (tl es)) m2 =
            (map Returns (tl es), m2\<lparr>currentIndex := int (length (tl es))\<rparr>)"
      using redo_n_forward [of m2 "[]" "hd es" "tl es" "[]"] split by (simp add: m2)
    then show ?thesis
      using N by (simp add: m2 m1)
  qed
  have after: "history (push s a t (snd (undo_n j m1))) = take (N - j) es @ [item_of (s, a, t)] \<and>
               currentIndex (push s a t (snd (undo_n j m1))) = int (N - j) \<and>
               fst (redo (push s a t (snd (undo_n j m1)))) = ReturnsNull"
    if "1 \<le> j" "j \<le> N - 1" for j s a t
  proof -
    have s2: "snd (undo_n j m1) = m1\<lparr>currentIndex := int (N - 1 - j)\<rparr>"
      using undo_j [OF that(2)] by simp
    have "push s a t (m1\<lparr>currentIndex := int (N - 1 - j)\<rparr>) =
               m1\<lparr>history := take (N - j) es @ [item_of (s, a, t)], currentIndex := int (N - j)\<rparr>"
      using that N
      by (simp add: m1 push_def slice0_def Let_def item_of_triple
            nat_diff_distrib of_nat_diff)
    then have p: "push s a t (snd (undo_n j m1)) =
               m1\<lparr>history := take (N - j) es @ [item_of (s, a, t)], currentIndex := int (N - j)\<rparr>"
      by (simp only: s2)
    show ?thesis
      unfolding p using that N by (simp add: redo_def canRedo_def m1)
  qed
  have h1: "history m1 = es" "currentIndex m1 = int N - 1"
    by (simp_all add: m1)
  show ?thesis
    unfolding Let_def
    using h1 cur u r after
    by (auto simp add: N_def [symmetric] es_def [symmetric] m1_def [symmetric]
          m2_def [symmetric] m2)
qed

text \<open>
  C4 (amended) at three pushes into a fresh manager with the default bound 50.
\<close>

theorem C4_undo_redo_sequence_witness:
  "fst (undo_n (Suc (Suc 0))
     (push_all [(1::nat, ''CALCULATE'', 10), (2, ''CALCULATE'', 20), (3, ''CALCULATE'', 30)]
        (new_UndoRedoManager 50)))
   = [Returns (item_of (2, ''CALCULATE'', 20)), Returns (item_of (1, ''CALCULATE'', 10))] \<and>
   fst (redo_n (Suc (Suc 0)) (snd (undo_n (Suc (Suc 0))
     (push_all [(1::nat, ''CALCULATE'', 10), (2, ''CALCULATE'', 20), (3, ''CALCULATE'', 30)]
        (new_UndoRedoManager 50)))))
   = [Returns (item_of (2, ''CALCULATE'', 20)), Returns (item_of (3, ''CALCULATE'', 30))] \<and>
   getCurrentState
     (push_all [(1::nat, ''CALCULATE'', 10), (2, ''CALCULATE'', 20), (3, ''CALCULATE'', 30)]
        (new_UndoRedoManager 50)) = Some 3 \<and>
   fst (redo (push 4 ''CALCULATE'' 40 (snd (undo_n (Suc 0)
     (push_all [(1::nat, ''CALCULATE'', 10), (2, ''CALCULATE'', 20), (3, ''CALCULATE'', 30)]
        (new_UndoRedoManager 50)))))) = ReturnsNull"
proof -
  let ?P = "[(1::nat, ''CALCULATE'', 10::int), (2, ''CALCULATE'', 20), (3, ''CALCULATE'', 30)]"
  have ne: "?P \<noteq> []" and le: "int (length ?P) \<le> 50"
    by simp_all
  show ?thesis
    using C4_undo_redo_sequence [OF ne le]
    by (simp add: push_def new_UndoRedoManager_def undo_def redo_def canUndo_def canRedo_def
          item_of_def Let_def slice0_def getCurrentState_def)
qed

subsection \<open>The bound on the history\<close>

text \<open>
  C5, as stated, on a manager constructed with bound 0 and \<open>k = 1\<close>: the one
  pushed entry is evicted at once; the history is empty and the cursor stays at
  \<open>-1\<close>, so it addresses no snapshot.
\<close>

theorem C5_counterexample:
  "length [(1::nat, ''UPDATE'', 10::int)] = nat 0 + 1 \<and>
   history (push_all [(1::nat, ''UPDATE'', 10)] (new_UndoRedoManager 0)) = [] \<and>
   currentIndex (push_all [(1::nat, ''UPDATE'', 10)] (new_UndoRedoManager 0)) = - 1 \<and>
   getCurrentState (push_all [(1::nat, ''UPDATE'', 10)] (new_UndoRedoManager 0)) = None"
  by (simp add: push_def new_UndoRedoManager_def getCurrentState_def Let_def)

text \<open>
  C5 (amended): for a bound \<open>maxHistory \<ge> 1\<close> and any \<open>k \<ge> 1\<close>, pushing
  \<open>maxHistory + k\<close> snapshots into a fresh manager leaves exactly \<open>maxHistory\<close>
  entries, namely the last \<open>maxHistory\<close> pushed, and \<open>currentIndex = maxHistory - 1\<close>
  addresses the most recently pushed snapshot.
\<close>

theorem C5_bounded_history:
  assumes "1 \<le> bound" and "1 \<le> k" and "length pushes = nat bound + k"
  shows "length (history (push_all pushes (new_UndoRedoManager bound))) = nat bound \<and>
         history (push_all pushes (new_UndoRedoManager bound)) = drop k (map item_of pushes) \<and>
         currentIndex (push_all pushes (new_UndoRedoManager bound)) = bound - 1 \<and>
         history (push_all pushes (new_UndoRedoManager bound))
           ! nat (currentIndex (push_all pushes (new_UndoRedoManager bound)))
           = item_of (last pushes) \<and>
         getCurrentState (push_all pushes (new_UndoRedoManager bound))
           = Some (fst (last pushes))"
proof -
  have ne: "pushes \<noteq> []" using assms by auto
  have b: "0 \<le> bound" using assms by simp
  have lst: "drop k (map item_of pushes) ! nat (bound - 1) = item_of (last pushes)"
    using assms ne by (simp add: last_conv_nth nat_diff_distrib add.commute)
  have st: "state (item_of (last pushes)) = fst (last pushes)"
    by (cases "last pushes") (simp add: item_of_def)
  show ?thesis
    using assms lst st by (simp add: push_all_fresh [OF b] getCurrentState_def)
qed

text \<open>C5 (amended) at bound 2 and three pushes.\<close>

theorem C5_bounded_history_witness:
  "history (push_all [(1::nat, ''CALCULATE'', 10), (2, ''CALCULATE'', 20), (3, ''CALCULATE'', 30)]
      (new_UndoRedoManager 2))
   = [item_of (2, ''CALCULATE'', 20), item_of (3, ''CALCULATE'', 30)] \<and>
   currentIndex (push_all [(1::nat, ''CALCULATE'', 10), (2, ''CALCULATE'', 20), (3, ''CALCULATE'', 30)]
      (new_UndoRedoManager 2)) = 1 \<and>
   getCurrentState (push_all [(1::nat, ''CALCULATE'', 10), (2, ''CALCULATE'', 20), (3, ''CALCULATE'', 30)]
      (new_UndoRedoManager 2)) = Some 3"
  using C5_bounded_history
    [of 2 1 "[(1::nat, ''CALCULATE'', 10), (2, ''CALCULATE'', 20), (3, ''CALCULATE'', 30)]"]
  by simp

section \<open>Properties of coordinate parsing\<close>










section \<open>Properties of the measurement entity\<close>

lemma updatePoint_in_range:
  "updatePoint ''left'' (NumberIndex (Fin 1)) (JObj [(''x'', JNum (Fin 7)), (''y'', JNum (Fin 8))]) ''t1''
     (new_Measurement ''m1'' ''t0''
        (array_of [\<lparr>px = Fin 0, py = Fin 0\<rparr>, \<lparr>px = Fin 3, py = Fin 4\<rparr>]) (array_of []) [])
   = (True,
      (new_Measurement ''m1'' ''t0''
        (array_of [\<lparr>px = Fin 0, py = Fin 0\<rparr>, \<lparr>px = Fin 7, py = Fin 8\<rparr>]) (array_of []) [])
      \<lparr>updatedAt_m := ''t1''\<rparr>)"
  by (simp add: updatePoint_def new_Measurement_def point_accepted_def as_point_def
        calculate_def Let_def array_of_def array_put_def js_ge_def)

text \<open>
  The range guard of \<open>updatePoint\<close> lets the keys NaN, \<open>undefined\<close> and a fraction
  below the length through: the call returns \<open>true\<close>, leaves the elements alone
  and puts the point on the array under that key.  An index at the length, above it
  or below 0 is refused.
\<close>

lemma updatePoint_stray_key:
  "k \<in> {NumberIndex NaN, UndefinedIndex, NumberIndex (Fin (1 / 2))} \<Longrightarrow>
   fst (updatePoint ''left'' k (JObj [(''x'', JNum (Fin 7)), (''y'', JNum (Fin 8))]) ''t1''
     (new_Measurement ''m1'' ''t0'' (array_of [\<lparr>px = Fin 0, py = Fin 0\<rparr>]) (array_of []) [])) \<and>
   leftPoints (snd (updatePoint ''left'' k (JObj [(''x'', JNum (Fin 7)), (''y'', JNum (Fin 8))]) ''t1''
     (new_Measurement ''m1'' ''t0'' (array_of [\<lparr>px = Fin 0, py = Fin 0\<rparr>]) (array_of []) [])))
   = \<lparr>elems = [\<lparr>px = Fin 0, py = Fin 0\<rparr>], named = [k \<mapsto> \<lparr>px = Fin 7, py = Fin 8\<rparr>]\<rparr>"
  by (auto simp add: updatePoint_def new_Measurement_def point_accepted_def as_point_def
        calculate_def Let_def array_of_def array_put_def js_ge_def)

lemma updatePoint_out_of_range:
  "k \<in> {NumberIndex (Fin 1), NumberIndex (Fin (- 1)), NumberIndex PosInf, NumberIndex NegInf} \<Longrightarrow>
   updatePoint ''left'' k p now
     (new_Measurement ''m1'' ''t0'' (array_of [\<lparr>px = Fin 0, py = Fin 0\<rparr>]) (array_of []) [])
   = (False, new_Measurement ''m1'' ''t0'' (array_of [\<lparr>px = Fin 0, py = Fin 0\<rparr>]) (array_of []) [])"
  by (auto simp add: updatePoint_def new_Measurement_def Let_def array_of_def js_ge_def)

text \<open>
  C6, as stated, at a point with \<open>x = NaN\<close> and at one with \<open>x = Infinity\<close>:
  both are of type number, so \<open>addPoint\<close> returns \<open>true\<close> and stores the first,
  and \<open>updatePoint\<close> returns \<open>true\<close>, stores the second and recalculates, which
  turns \<open>leftDistance\<close> from 100 into \<open>Infinity\<close>.
\<close>

theorem C6_counterexample:
  "\<not> isFinite NaN \<and> \<not> isFinite PosInf \<and>
   fst (addPoint ''left'' (JObj [(''x'', JNum NaN), (''y'', JNum (Fin 0))]) ''t1''
          (new_Measurement ''m1'' ''t0'' (array_of []) (array_of []) [])) = True \<and>
   elems (leftPoints (snd (addPoint ''left'' (JObj [(''x'', JNum NaN), (''y'', JNum (Fin 0))]) ''t1''
          (new_Measurement ''m1'' ''t0'' (array_of []) (array_of []) []))))
     = [\<lparr>px = NaN, py = Fin 0\<rparr>] \<and>
   fst (updatePoint ''left'' (NumberIndex (Fin 1))
          (JObj [(''x'', JNum PosInf), (''y'', JNum (Fin 0))]) ''t1''
          (new_Measurement ''m1'' ''t0''
             (array_of [\<lparr>px = Fin 0, py = Fin 0\<rparr>, \<lparr>px = Fin 100, py = Fin 0\<rparr>])
             (array_of [\<lparr>px = Fin 0, py = Fin 50\<rparr>, \<lparr>px = Fin 100, py = Fin 50\<rparr>]) [])) = True \<and>
   elems (leftPoints (snd
      (updatePoint ''left'' (NumberIndex (Fin 1))
          (JObj [(''x'', JNum PosInf), (''y'', JNum (Fin 0))]) ''t1''
          (new_Measurement ''m1'' ''t0''
             (array_of [\<lparr>px = Fin 0, py = Fin 0\<rparr>, \<lparr>px = Fin 100, py = Fin 0\<rparr>])
             (array_of [\<lparr>px = Fin 0, py = Fin 50\<rparr>, \<lparr>px = Fin 100, py = Fin 50\<rparr>]) []))))
     = [\<lparr>px = Fin 0, py = Fin 0\<rparr>, \<lparr>px = PosInf, py = Fin 0\<rparr>] \<and>
   leftDistance (calculations (snd
      (updatePoint ''left'' (NumberIndex (Fin 1))
          (JObj [(''x'', JNum PosInf), (''y'', JNum (Fin 0))]) ''t1''
          (new_Measurement ''m1'' ''t0''
             (array_of [\<lparr>px = Fin 0, py = Fin 0\<rparr>, \<lparr>px = Fin 100, py = Fin 0\<rparr>])
             (array_of [\<lparr>px = Fin 0, py = Fin 50\<rparr>, \<lparr>px = Fin 100, py = Fin 50\<rparr>]) [])))) = PosInf \<and>
   leftDistance (calculations
          (new_Measurement ''m1'' ''t0''
             (array_of [\<lparr>px = Fin 0, py = Fin 0\<rparr>, \<lparr>px = Fin 100, py = Fin 0\<rparr>])
             (array_of [\<lparr>px = Fin 0, py = Fin 50\<rparr>, \<lparr>px = Fin 100, py = Fin 50\<rparr>]) [])) = Fin 100"
  by (simp add: addPoint_def updatePoint_def new_Measurement_def point_accepted_def as_point_def
        calculate_def Let_def calculateMeasurements_def zero_aggregate_def dist_def js_sub_def
        midpoint_def array_of_def array_push_def array_put_def js_ge_def)

text \<open>
  C6 (amended): \<open>addPoint\<close> and \<open>updatePoint\<close> reject, that is return \<open>false\<close>
  and leave the measurement with its points and calculations unchanged, every point
  that is missing (falsy) or whose \<open>x\<close> or \<open>y\<close> is not of type number, and every
  call that returns \<open>false\<close> leaves the measurement unchanged.  The check is by type
  alone, not by finiteness: on the side \<open>left\<close> or \<open>right\<close>, \<open>addPoint\<close> accepts
  exactly the points that pass it, and appends them to that side.
\<close>

theorem C6_point_guard:
  "(\<not> truthy p \<or> \<not> typeof_number (jsprop p ''x'') \<or> \<not> typeof_number (jsprop p ''y'') \<longrightarrow>
      addPoint side p now m = (False, m) \<and> updatePoint side i p now m = (False, m)) \<and>
   (\<not> fst (addPoint side p now m) \<longrightarrow> snd (addPoint side p now m) = m) \<and>
   (\<not> fst (updatePoint side i p now m) \<longrightarrow> snd (updatePoint side i p now m) = m) \<and>
   fst (addPoint side p now m) =
     ((side = ''left'' \<or> side = ''right'') \<and>
      truthy p \<and> typeof_number (jsprop p ''x'') \<and> typeof_number (jsprop p ''y'')) \<and>
   (fst (addPoint ''left'' p now m) \<longrightarrow>
      elems (leftPoints (snd (addPoint ''left'' p now m))) = elems (leftPoints m) @ [as_point p]) \<and>
   (fst (addPoint ''right'' p now m) \<longrightarrow>
      elems (rightPoints (snd (addPoint ''right'' p now m))) = elems (rightPoints m) @ [as_point p])"
  by (auto simp add: addPoint_def updatePoint_def point_accepted_def Let_def array_push_def)

text \<open>
  C6 (amended) at a point whose \<open>x\<close> is the string \<open>NaN\<close>, at the point \<open>null\<close>,
  and at a point with \<open>x = -Infinity\<close>, which is accepted.
\<close>

theorem C6_point_guard_witness:
  "addPoint ''left'' (JObj [(''x'', JStr ''NaN''), (''y'', JNum (Fin 0))]) ''t1''
     (new_Measurement ''m1'' ''t0'' (array_of []) (array_of []) [])
   = (False, new_Measurement ''m1'' ''t0'' (array_of []) (array_of []) []) \<and>
   updatePoint ''left'' (NumberIndex (Fin 0)) JNull ''t1''
     (new_Measurement ''m1'' ''t0'' (array_of [\<lparr>px = Fin 0, py = Fin 0\<rparr>]) (array_of []) [])
   = (False, new_Measurement ''m1'' ''t0'' (array_of [\<lparr>px = Fin 0, py = Fin 0\<rparr>]) (array_of []) []) \<and>
   elems (leftPoints (snd (addPoint ''left'' (JObj [(''x'', JNum NegInf), (''y'', JNum (Fin 0))]) ''t1''
     (new_Measurement ''m1'' ''t0'' (array_of []) (array_of []) []))))
   = [\<lparr>px = NegInf, py = Fin 0\<rparr>]"
  using C6_point_guard [of "JObj [(''x'', JStr ''NaN''), (''y'', JNum (Fin 0))]" "''left''"
                          "''t1''" "new_Measurement ''m1'' ''t0'' (array_of []) (array_of []) []"
                          "NumberIndex (Fin 0)"]
        C6_point_guard [of JNull "''left''" "''t1''"
                          "new_Measurement ''m1'' ''t0'' (array_of [\<lparr>px = Fin 0, py = Fin 0\<rparr>]) (array_of []) []"
                          "NumberIndex (Fin 0)"]
        C6_point_guard [of "JObj [(''x'', JNum NegInf), (''y'', JNum (Fin 0))]" "''left''"
                          "''t1''" "new_Measurement ''m1'' ''t0'' (array_of []) (array_of []) []"
                          "NumberIndex (Fin 0)"]
  by (simp add: as_point_def new_Measurement_def array_of_def)

section \<open>Properties of the state store\<close>

subsection \<open>Operations that keep a non-null current id among the projects\<close>

lemma findIndex_range: "- 1 \<le> findIndex P xs \<and> findIndex P xs < int (length xs)"
  by (induction xs) (auto simp add: Let_def)

lemma findIndex_hit:
  "findIndex P xs \<noteq> - 1 \<Longrightarrow> P (xs ! nat (findIndex P xs))"
proof (induction xs)
  case Nil
  then show ?case by simp
next
  case (Cons x xs)
  show ?case
  proof (cases "P x")
    case True
    then show ?thesis by simp
  next
    case False
    then have ne: "findIndex P xs \<noteq> - 1"
      using Cons.prems by (auto simp add: Let_def split: if_splits)
    have "0 \<le> findIndex P xs"
      using ne findIndex_range [of P xs] by linarith
    then have "nat (findIndex P xs + 1) = Suc (nat (findIndex P xs))"
      by simp
    then show ?thesis
      using False ne Cons.IH by (simp add: Let_def)
  qed
qed

lemma splice_keeps_others:
  assumes "x \<in> set xs" and "x \<noteq> xs ! k"
  shows "x \<in> set (take k xs @ drop (k + 1) xs)"
proof -
  obtain j where j: "j < length xs" "xs ! j = x"
    using assms(1) by (auto simp add: in_set_conv_nth)
  have "j \<noteq> k" using j assms(2) by auto
  then consider "j < k" | "k < j" by linarith
  then show ?thesis
  proof cases
    case 1
    then have "x \<in> set (take k xs)"
      using j by (auto simp add: in_set_conv_nth)
    then show ?thesis by simp
  next
    case 2
    then have "x = drop (k + 1) xs ! (j - (k + 1))" and "j - (k + 1) < length (drop (k + 1) xs)"
      using j by auto
    then have "x \<in> set (drop (k + 1) xs)"
      by (metis nth_mem)
    then show ?thesis by simp
  qed
qed

lemma removeProject_preserves:
  assumes "current_resolves s"
  shows "current_resolves (snd (removeProject i s))"
proof (cases "findIndex (\<lambda>p. id_p p = JStr i) (projects s) = - 1")
  case True
  then show ?thesis using assms by (simp add: removeProject_def)
next
  case False
  let ?k = "nat (findIndex (\<lambda>p. id_p p = JStr i) (projects s))"
  have hit: "id_p (projects s ! ?k) = JStr i"
    using findIndex_hit [OF False] by simp
  show ?thesis
  proof (cases "currentProjectId s")
    case None
    then show ?thesis using False by (simp add: removeProject_def current_resolves_def Let_def)
  next
    case (Some j)
    show ?thesis
    proof (cases "j = i")
      case True
      then show ?thesis
        using False Some by (simp add: removeProject_def current_resolves_def Let_def)
    next
      case ne: False
      obtain p where p: "p \<in> set (projects s)" "id_p p = JStr j"
        using assms Some by (auto simp add: current_resolves_def list_ex_iff)
      have "p \<noteq> projects s ! ?k" using p(2) hit ne by auto
      then have "p \<in> set (take ?k (projects s) @ drop (?k + 1) (projects s))"
        using p(1) by (rule splice_keeps_others [rotated])
      then show ?thesis
        using False Some ne p(2)
        by (auto simp add: removeProject_def current_resolves_def Let_def list_ex_iff)
    qed
  qed
qed

lemma removeProject_resets:
  "currentProjectId s = Some i \<Longrightarrow> fst (removeProject i s) \<Longrightarrow>
   currentProjectId (snd (removeProject i s)) = None \<and> currentProject (snd (removeProject i s)) = None"
  by (simp add: removeProject_def Let_def split: if_splits)

lemma setCurrentProject_preserves:
  assumes "current_resolves s"
  shows "current_resolves (snd (setCurrentProject i s))"
proof (cases "i = None \<or> i = Some []")
  case True
  then show ?thesis by (auto simp add: setCurrentProject_def current_resolves_def)
next
  case False
  then obtain j where j: "i = Some j" "j \<noteq> []" by auto
  show ?thesis
  proof (cases "getProject j s")
    case None
    then show ?thesis using assms j by (simp add: setCurrentProject_def)
  next
    case (Some p)
    then have "p \<in> set (projects s)" "id_p p = JStr j"
      by (auto simp add: getProject_def find_Some_iff)
    then show ?thesis
      using Some j by (auto simp add: setCurrentProject_def current_resolves_def list_ex_iff)
  qed
qed

lemma clearAll_resolves: "current_resolves (clearAll s)"
  by (simp add: clearAll_def new_StateManager_def current_resolves_def)

lemma updateSettings_preserves: "current_resolves s \<Longrightarrow> current_resolves (updateSettings u s)"
  by (simp add: updateSettings_def current_resolves_def split: option.splits)

lemma loadState_from_unselected:
  assumes "currentProjectId s = None"
  shows "current_resolves (loadState d s)"
proof (cases "map_fromJSON (if truthy (data_projects d) then data_projects d else JArr [])")
  case (Inl e)
  then show ?thesis using assms by (simp add: loadState_def current_resolves_def)
next
  case (Inr ps)
  let ?s2 = "s\<lparr>projects := ps,
                settings := getDefaultSettings
                  ++ own_props (if truthy (data_settings d) then data_settings d else JObj [])\<rparr>"
  have "current_resolves ?s2" using assms by (simp add: current_resolves_def)
  then have "current_resolves (snd (setCurrentProject (data_currentProjectId d) ?s2))"
    by (rule setCurrentProject_preserves)
  then show ?thesis
    using Inr assms by (simp add: loadState_def Let_def current_resolves_def)
qed

subsection \<open>Loading over a selected project\<close>

text \<open>
  C8 at a failing input.  A fresh store loads project \<open>A\<close> with \<open>A\<close> as the current
  id, and the invariant holds.  It then loads a snapshot that holds only project \<open>B\<close>
  and no current id: \<open>projects\<close> is replaced, but \<open>currentProjectId\<close> is still
  \<open>A\<close>, which no project in the store has, so the invariant of C8 is broken by
  \<open>loadState\<close>.
\<close>

theorem C8_loadState_stale_current:
  "current_resolves
     (loadState \<lparr>data_projects = JArr [JObj [(''id'', JStr ''A''), (''name'', JStr ''Plot A'')]],
                 data_settings = JObj [], data_currentProjectId = Some ''A''\<rparr> new_StateManager) \<and>
   currentProjectId
     (loadState \<lparr>data_projects = JArr [JObj [(''id'', JStr ''B''), (''name'', JStr ''Plot B'')]],
                 data_settings = JObj [], data_currentProjectId = None\<rparr>
       (loadState \<lparr>data_projects = JArr [JObj [(''id'', JStr ''A''), (''name'', JStr ''Plot A'')]],
                   data_settings = JObj [], data_currentProjectId = Some ''A''\<rparr> new_StateManager))
     = Some ''A'' \<and>
   map id_p (projects
     (loadState \<lparr>data_projects = JArr [JObj [(''id'', JStr ''B''), (''name'', JStr ''Plot B'')]],
                 data_settings = JObj [], data_currentProjectId = None\<rparr>
       (loadState \<lparr>data_projects = JArr [JObj [(''id'', JStr ''A''), (''name'', JStr ''Plot A'')]],
                   data_settings = JObj [], data_currentProjectId = Some ''A''\<rparr> new_StateManager)))
     = [JStr ''B''] \<and>
   \<not> current_resolves
     (loadState \<lparr>data_projects = JArr [JObj [(''id'', JStr ''B''), (''name'', JStr ''Plot B'')]],
                 data_settings = JObj [], data_currentProjectId = None\<rparr>
       (loadState \<lparr>data_projects = JArr [JObj [(''id'', JStr ''A''), (''name'', JStr ''Plot A'')]],
                   data_settings = JObj [], data_currentProjectId = Some ''A''\<rparr> new_StateManager))"
  by (simp add: loadState_def fromJSON_def setCurrentProject_def getProject_def
        new_StateManager_def current_resolves_def Let_def)

section \<open>Properties of the import\<close>

lemma importAllData_rejected_untouched:
  "fst (importAllData inp s) = Rejected e \<Longrightarrow> snd (importAllData inp s) = s"
  by (auto simp add: importAllData_def Let_def split: import_input.splits sum.splits if_splits)

lemma fromJSON_each_Inr_iff:
  "(\<exists>ps. fromJSON_each ds = Inr ps) = (JNull \<notin> set ds \<and> JUndefined \<notin> set ds)"
  by (induction ds) (auto simp add: fromJSON_def split: sum.splits)

lemma fromJSON_each_error: "fromJSON_each ds = Inl e \<Longrightarrow> e = TypeError"
  by (induction ds) (auto simp add: fromJSON_def split: sum.splits if_splits)

lemma map_fromJSON_error: "map_fromJSON v = Inl e \<Longrightarrow> e = TypeError"
  using fromJSON_each_error by (cases v) auto

lemma map_fromJSON_Inr_iff:
  "(\<exists>ps. map_fromJSON v = Inr ps) =
     (case v of JArr ds \<Rightarrow> JNull \<notin> set ds \<and> JUndefined \<notin> set ds | _ \<Rightarrow> False)"
  using fromJSON_each_Inr_iff by (cases v) auto

lemma importable_iff:
  "importable data =
     (data \<noteq> JNull \<and> data \<noteq> JUndefined \<and>
      truthy (jsprop data ''projects'') \<and> truthy (jsprop data ''version'') \<and>
      (\<exists>ps. map_fromJSON (jsprop data ''projects'') = Inr ps))"
  unfolding map_fromJSON_Inr_iff importable_def
  by (cases "jsprop data ''projects''") auto

lemma importAllData_outcome:
  "fst (importAllData inp s) =
     (case inp of
        ReadFailed \<Rightarrow> Rejected (Error ''Failed to read file'')
      | NotJSON \<Rightarrow> Rejected SyntaxError
      | Parsed data \<Rightarrow>
          if importable data then Resolved True
          else if data \<noteq> JNull \<and> data \<noteq> JUndefined \<and>
                  \<not> (truthy (jsprop data ''projects'') \<and> truthy (jsprop data ''version''))
          then Rejected invalid_format
          else Rejected TypeError)"
proof (cases inp)
  case (Parsed data)
  show ?thesis
  proof (cases "map_fromJSON (jsprop data ''projects'')")
    case (Inl e)
    then have "e = TypeError" by (rule map_fromJSON_error)
    then show ?thesis
      using Inl Parsed by (auto simp add: importAllData_def importable_iff Let_def)
  next
    case (Inr ps)
    then show ?thesis
      using Parsed by (auto simp add: importAllData_def importable_iff Let_def)
  qed
qed (simp_all add: importAllData_def)

lemma importAllData_imported:
  assumes "importable data"
  shows "map_fromJSON (jsprop data ''projects'') = Inr (projects (snd (importAllData (Parsed data) s))) \<and>
         settings (snd (importAllData (Parsed data) s)) =
           settings s ++ own_props (if truthy (jsprop data ''settings'') then jsprop data ''settings''
                                    else JObj [])"
proof -
  obtain ps where "map_fromJSON (jsprop data ''projects'') = Inr ps"
    using assms by (auto simp add: importable_iff)
  then show ?thesis
    using assms by (auto simp add: importAllData_def importable_iff updateSettings_def Let_def)
qed

text \<open>
  C9, as stated, at two inputs.  A store whose theme was set to \<open>dark\<close> imports a
  valid document whose settings hold only \<open>autoSave\<close>: the import succeeds and the
  stored theme is still \<open>dark\<close>, so the stored settings were merged with the imported
  ones and not replaced by them.  A document with a version whose \<open>projects\<close> is an
  object and not an array is rejected with a \<open>TypeError\<close>, not with
  \<open>Invalid backup file format\<close>.
\<close>

theorem C9_counterexample:
  "fst (importAllData
          (Parsed (JObj [(''version'', JStr ''1.0.0''), (''projects'', JArr []),
                         (''settings'', JObj [(''autoSave'', JBool False)])]))
          (updateSettings (JObj [(''theme'', JStr ''dark'')]) new_StateManager)) = Resolved True \<and>
   own_props (JObj [(''autoSave'', JBool False)]) ''theme'' = None \<and>
   settings (snd (importAllData
          (Parsed (JObj [(''version'', JStr ''1.0.0''), (''projects'', JArr []),
                         (''settings'', JObj [(''autoSave'', JBool False)])]))
          (updateSettings (JObj [(''theme'', JStr ''dark'')]) new_StateManager))) ''theme''
     = Some (JStr ''dark'') \<and>
   settings (snd (importAllData
          (Parsed (JObj [(''version'', JStr ''1.0.0''), (''projects'', JArr []),
                         (''settings'', JObj [(''autoSave'', JBool False)])]))
          (updateSettings (JObj [(''theme'', JStr ''dark'')]) new_StateManager)))
     \<noteq> own_props (JObj [(''autoSave'', JBool False)]) \<and>
   fst (importAllData
          (Parsed (JObj [(''version'', JStr ''1.0.0''), (''projects'', JObj [])]))
          new_StateManager) = Rejected TypeError \<and>
   TypeError \<noteq> invalid_format"
proof -
  let ?s = "updateSettings (JObj [(''theme'', JStr ''dark'')]) new_StateManager"
  let ?r = "importAllData
          (Parsed (JObj [(''version'', JStr ''1.0.0''), (''projects'', JArr []),
                         (''settings'', JObj [(''autoSave'', JBool False)])])) ?s"
  have r: "fst ?r = Resolved True"
    by (simp add: importAllData_def Let_def)
  have t: "settings (snd ?r) ''theme'' = Some (JStr ''dark'')"
    by (simp add: importAllData_def updateSettings_def Let_def map_add_def)
  have n: "own_props (JObj [(''autoSave'', JBool False)]) ''theme'' = None"
    by simp
  have d: "settings (snd ?r) \<noteq> own_props (JObj [(''autoSave'', JBool False)])"
  proof
    assume "settings (snd ?r) = own_props (JObj [(''autoSave'', JBool False)])"
    then have "settings (snd ?r) ''theme'' = own_props (JObj [(''autoSave'', JBool False)]) ''theme''"
      by (rule arg_cong)
    then show False using t n by simp
  qed
  have e: "fst (importAllData
          (Parsed (JObj [(''version'', JStr ''1.0.0''), (''projects'', JObj [])]))
          new_StateManager) = Rejected TypeError"
    by (simp add: importAllData_def Let_def)
  have "TypeError \<noteq> invalid_format"
    by (simp add: invalid_format_def)
  then show ?thesis using r t n d e by simp
qed

text \<open>
  C9 (amended): \<open>importAllData\<close> checks the document before it touches the store,
  and every rejected import leaves the store, its projects and settings included,
  completely unchanged.  It rejects with \<open>Invalid backup file format\<close> exactly when
  the parsed document is not \<open>null\<close> and its \<open>projects\<close> or its \<open>version\<close> is
  missing or falsy.  A file that cannot be read is rejected with the read error, a
  text that is not JSON with a \<open>SyntaxError\<close>, and a \<open>null\<close> document, a truthy
  \<open>projects\<close> that is not an array or a project entry that is \<open>null\<close> with a
  \<open>TypeError\<close>.  Every other document, that is every importable one, resolves
  with \<open>true\<close>: the stored projects are fully replaced by the projects built from
  the document's entries, and the document's settings are merged into the stored
  settings (imported keys override, other stored keys stay) and do not replace them.
\<close>

theorem C9_import_validates_then_merges:
  "(\<forall>e. fst (importAllData inp s) = Rejected e \<longrightarrow> snd (importAllData inp s) = s) \<and>
   (fst (importAllData inp s) = Rejected invalid_format) =
     (\<exists>data. inp = Parsed data \<and> data \<noteq> JNull \<and> data \<noteq> JUndefined \<and>
        \<not> (truthy (jsprop data ''projects'') \<and> truthy (jsprop data ''version''))) \<and>
   (fst (importAllData inp s) = Rejected (Error ''Failed to read file'')) = (inp = ReadFailed) \<and>
   (fst (importAllData inp s) = Rejected SyntaxError) = (inp = NotJSON) \<and>
   (fst (importAllData inp s) = Rejected TypeError) =
     (\<exists>data. inp = Parsed data \<and>
        (data = JNull \<or> data = JUndefined \<or>
         (truthy (jsprop data ''projects'') \<and> truthy (jsprop data ''version'') \<and>
          \<not> importable data))) \<and>
   (fst (importAllData inp s) = Resolved True) = (\<exists>data. inp = Parsed data \<and> importable data) \<and>
   fst (importAllData inp s) \<noteq> Resolved False \<and>
   (\<forall>data. inp = Parsed data \<and> importable data \<longrightarrow>
      map_fromJSON (jsprop data ''projects'') = Inr (projects (snd (importAllData inp s))) \<and>
      settings (snd (importAllData inp s)) =
        settings s ++ own_props (if truthy (jsprop data ''settings'') then jsprop data ''settings''
                                 else JObj []))"
proof -
  have imp: "importable data \<Longrightarrow>
      data \<noteq> JNull \<and> data \<noteq> JUndefined \<and>
      truthy (jsprop data ''projects'') \<and> truthy (jsprop data ''version'')" for data
    by (simp add: importable_iff)
  have out: "fst (importAllData inp s) = Rejected invalid_format \<longleftrightarrow>
               (\<exists>data. inp = Parsed data \<and> data \<noteq> JNull \<and> data \<noteq> JUndefined \<and>
                  \<not> (truthy (jsprop data ''projects'') \<and> truthy (jsprop data ''version'')))"
       "fst (importAllData inp s) = Rejected (Error ''Failed to read file'') \<longleftrightarrow> inp = ReadFailed"
       "fst (importAllData inp s) = Rejected SyntaxError \<longleftrightarrow> inp = NotJSON"
       "fst (importAllData inp s) = Rejected TypeError \<longleftrightarrow>
          (\<exists>data. inp = Parsed data \<and>
             (data = JNull \<or> data = JUndefined \<or>
              (truthy (jsprop data ''projects'') \<and> truthy (jsprop data ''version'') \<and>
               \<not> importable data)))"
       "fst (importAllData inp s) = Resolved True \<longleftrightarrow> (\<exists>data. inp = Parsed data \<and> importable data)"
       "fst (importAllData inp s) \<noteq> Resolved False"
    using imp
    by (auto simp add: importAllData_outcome invalid_format_def split: import_input.splits)
  show ?thesis
    using out importAllData_rejected_untouched [of inp s] importAllData_imported [of _ s]
    by blast
qed

text \<open>
  C9 (amended) at an unreadable file, at a document without a version, at one whose
  project list holds \<open>null\<close>, and at an importable one.
\<close>

theorem C9_import_validates_then_merges_witness:
  "importAllData ReadFailed new_StateManager
     = (Rejected (Error ''Failed to read file''), new_StateManager) \<and>
   importAllData (Parsed (JObj [(''projects'', JArr [])])) new_StateManager
     = (Rejected invalid_format, new_StateManager) \<and>
   importAllData (Parsed (JObj [(''version'', JStr ''1.0.0''), (''projects'', JArr [JNull])]))
       new_StateManager
     = (Rejected TypeError, new_StateManager) \<and>
   importable (JObj [(''version'', JStr ''1.0.0''),
                     (''projects'', JArr [JObj [(''id'', JStr ''A'')]]),
                     (''settings'', JObj [(''theme'', JStr ''dark'')])]) \<and>
   fst (importAllData
          (Parsed (JObj [(''version'', JStr ''1.0.0''),
                         (''projects'', JArr [JObj [(''id'', JStr ''A'')]]),
                         (''settings'', JObj [(''theme'', JStr ''dark'')])]))
          new_StateManager) = Resolved True \<and>
   map id_p (projects (snd (importAllData
          (Parsed (JObj [(''version'', JStr ''1.0.0''),
                         (''projects'', JArr [JObj [(''id'', JStr ''A'')]]),
                         (''settings'', JObj [(''theme'', JStr ''dark'')])]))
          new_StateManager))) = [JStr ''A''] \<and>
   settings (snd (importAllData
          (Parsed (JObj [(''version'', JStr ''1.0.0''),
                         (''projects'', JArr [JObj [(''id'', JStr ''A'')]]),
                         (''settings'', JObj [(''theme'', JStr ''dark'')])]))
          new_StateManager)) ''theme'' = Some (JStr ''dark'') \<and>
   settings (snd (importAllData
          (Parsed (JObj [(''version'', JStr ''1.0.0''),
                         (''projects'', JArr [JObj [(''id'', JStr ''A'')]]),
                         (''settings'', JObj [(''theme'', JStr ''dark'')])]))
          new_StateManager)) ''showGrid'' = Some (JBool True)"
  using C9_import_validates_then_merges [of ReadFailed new_StateManager]
        C9_import_validates_then_merges
          [of "Parsed (JObj [(''projects'', JArr [])])" new_StateManager]
        C9_import_validates_then_merges
          [of "Parsed (JObj [(''version'', JStr ''1.0.0''), (''projects'', JArr [JNull])])"
              new_StateManager]
        C9_import_validates_then_merges
          [of "Parsed (JObj [(''version'', JStr ''1.0.0''),
                         (''projects'', JArr [JObj [(''id'', JStr ''A'')]]),
                         (''settings'', JObj [(''theme'', JStr ''dark'')])])" new_StateManager]
  by (simp add: importAllData_def fromJSON_def updateSettings_def invalid_format_def
        importable_def new_StateManager_def getDefaultSettings_def Let_def map_add_def)

end
